theory Spec2Isabelle
  imports Main
begin

section \<open>Data model\<close>

text \<open>
  The server keeps three pieces of state: the SQLite table \<open>content\<close>, the SQLite table
  \<open>admin_settings\<close> and the directory \<open>uploads\<close>.  A row of \<open>content\<close> has the columns of
  the \<open>CREATE TABLE\<close> statement of \<open>initDatabase\<close>.  The two nullable columns are options;
  \<open>CURRENT_TIMESTAMP\<close> is a number handed to the handler by its caller.  The column
  \<open>id\<close> is called \<open>row_id\<close> here (\<open>id\<close> is the identity function of HOL) and the column
  \<open>chapter\<close> is called \<open>chapter_no\<close> (\<open>chapter\<close> is a keyword of Isabelle).
\<close>

type_synonym timestamp = nat

record content_row =
  row_id :: int
  subject :: string
  feature :: string
  chapter_no :: int
  content_type :: string
  file_path :: "string option"
  text_content :: "string option"
  created_at :: timestamp
  updated_at :: timestamp

text \<open>
  The state of the server.  \<open>content_seq\<close> is the entry of \<open>sqlite_sequence\<close> that
  \<open>AUTOINCREMENT\<close> keeps for the table \<open>content\<close>: the largest id ever handed out.
  \<open>admin_settings\<close> is the \<open>password_hash\<close> of the row with \<open>id = 1\<close>, the only row the
  code ever reads or writes (\<open>None\<close>: the row does not exist yet).  \<open>uploads\<close> is the set
  of file names present in the directory \<open>uploads\<close>.
\<close>

record server_state =
  content :: "content_row list"
  content_seq :: int
  admin_settings :: "string option"
  uploads :: "string set"

text \<open>
  \<open>req.body\<close> after \<open>express.json()\<close>: every field a handler destructures from it.
  \<open>None\<close> is a field that is missing or \<open>null\<close>.  \<open>body_chapter\<close> is the value that the
  handler receives, as the integer that the \<open>INTEGER\<close> affinity of the column stores
  for it.  It is not always the integer that the client wrote: \<open>express.json()\<close> parses
  a JSON number into an IEEE double, see \<open>json_number\<close> below.
\<close>

record body =
  body_password :: "string option"
  body_oldPassword :: "string option"
  body_newPassword :: "string option"
  body_subject :: "string option"
  body_feature :: "string option"
  body_chapter :: "int option"
  body_content :: "string option"

text \<open>
  A JSON number is an IEEE double, with a significand of 53 bits.  \<open>json_number n\<close> is
  the integer value of the double that \<open>JSON.parse\<close> makes of the integer literal \<open>n\<close>:
  \<open>n\<close> itself up to \<open>2^53 = 9007199254740992\<close> in magnitude, and beyond that \<open>n\<close>
  rounded to 53 significant bits, to the nearest and on a tie to the even significand.
  \<open>dropped_bits a\<close> is the number of low bits that do not fit.  (Literals of \<open>2^1024\<close>
  and more, which parse to \<open>Infinity\<close>, are not modelled.)
\<close>

fun dropped_bits :: "nat \<Rightarrow> nat" where
  "dropped_bits a = (if a < 9007199254740992 then 0 else Suc (dropped_bits (a div 2)))"

declare dropped_bits.simps [simp del]

definition json_number :: "int \<Rightarrow> int" where
  "json_number n =
     (if \<bar>n\<bar> \<le> 9007199254740992 then n
      else
        (let a = nat \<bar>n\<bar>;
             e = dropped_bits a;
             q = a div 2 ^ e;
             r = a mod 2 ^ e;
             m = (if 2 ^ e < 2 * r \<or> (2 * r = 2 ^ e \<and> odd q) then q + 1 else q)
         in sgn n * int (m * 2 ^ e)))"

text \<open>What \<open>res.status(...).json(...)\<close> sends.\<close>

datatype payload = No_payload | File_path string | Content content_row

record response =
  status :: nat
  success :: bool
  message :: "string option"
  payload :: payload

definition json :: "bool \<Rightarrow> string option \<Rightarrow> payload \<Rightarrow> response" where
  "json ok msg p = \<lparr>status = 200, success = ok, message = msg, payload = p\<rparr>"

definition status_json :: "nat \<Rightarrow> string \<Rightarrow> response" where
  "status_json code msg = \<lparr>status = code, success = False, message = Some msg, payload = No_payload\<rparr>"

section \<open>The database\<close>

text \<open>The columns of \<open>UNIQUE(subject, feature, chapter)\<close>.\<close>

definition slot_key :: "content_row \<Rightarrow> string \<times> string \<times> int" where
  "slot_key r = (subject r, feature r, chapter_no r)"

text \<open>
  \<open>AUTOINCREMENT\<close>: the id of a new row is one more than the largest id that the table
  holds or has ever held.
\<close>

definition next_rowid :: "server_state \<Rightarrow> int" where
  "next_rowid st = fold max (map row_id (content st)) (content_seq st) + 1"

text \<open>
  \<open>INSERT OR REPLACE INTO content (subject, feature, chapter, content_type, file_path or
  text_content, updated_at) VALUES (?, ?, ?, ..., ?, CURRENT_TIMESTAMP)\<close>.  A \<open>NULL\<close> in
  a \<open>NOT NULL\<close> column without default aborts the statement (\<open>None\<close>).  Otherwise every
  row that holds the same key is deleted and a new row is inserted: with a new id, with
  the column that the statement does not name at \<open>NULL\<close>, and with \<open>created_at\<close> at its
  default, \<open>CURRENT_TIMESTAMP\<close>.
\<close>

definition insert_or_replace ::
  "server_state \<Rightarrow> string option \<Rightarrow> string option \<Rightarrow> int option \<Rightarrow> string \<Rightarrow>
     string option \<Rightarrow> string option \<Rightarrow> timestamp \<Rightarrow> server_state option" where
  "insert_or_replace st subj feat chap ctype fpath txt now =
     (case subj of None \<Rightarrow> None | Some s \<Rightarrow>
      (case feat of None \<Rightarrow> None | Some f \<Rightarrow>
       (case chap of None \<Rightarrow> None | Some c \<Rightarrow>
          Some (st\<lparr>content :=
                     filter (\<lambda>r. slot_key r \<noteq> (s, f, c)) (content st) @
                     [\<lparr>row_id = next_rowid st, subject = s, feature = f, chapter_no = c,
                       content_type = ctype, file_path = fpath, text_content = txt,
                       created_at = now, updated_at = now\<rparr>],
                   content_seq := next_rowid st\<rparr>))))"

text \<open>
  \<open>initDatabase\<close> of \<open>server.js\<close>: the tables are created if they are missing, and the
  default password itself is stored as \<open>password_hash\<close> when row 1 is missing.
\<close>

definition defaultPassword :: string where
  "defaultPassword = ''admin123''"

definition new_database :: server_state where
  "new_database = \<lparr>content = [], content_seq = 0, admin_settings = None, uploads = {}\<rparr>"

definition initDatabase :: "server_state \<Rightarrow> server_state" where
  "initDatabase st =
     (case admin_settings st of
        None \<Rightarrow> st\<lparr>admin_settings := Some defaultPassword\<rparr>
      | Some row \<Rightarrow> st)"

section \<open>The file system\<close>

text \<open>
  \<open>path.basename\<close> (POSIX): the last portion of a path, trailing separators ignored.
\<close>

definition basename :: "string \<Rightarrow> string" where
  "basename p =
     rev (takeWhile (\<lambda>c. c \<noteq> CHR ''/'') (dropWhile (\<lambda>c. c = CHR ''/'') (rev p)))"

text \<open>
  \<open>if (fs.existsSync(filePath)) fs.unlinkSync(filePath)\<close>, where \<open>filePath\<close> is
  \<open>path.join(__dirname, 'uploads', filename)\<close>: the entry \<open>filename\<close> of \<open>uploads\<close>.
\<close>

definition unlink_if_exists :: "server_state \<Rightarrow> string \<Rightarrow> server_state" where
  "unlink_if_exists st filename =
     (if filename \<in> uploads st then st\<lparr>uploads := uploads st - {filename}\<rparr> else st)"

text \<open>
  \<open>upload.single('file')\<close> with \<open>multer.diskStorage\<close>: a file that passed \<open>fileFilter\<close>
  is written to \<open>uploads\<close> under its generated name before the handler runs, and
  \<open>req.file\<close> names it.  A request without a file leaves \<open>req.file\<close> undefined.
\<close>

definition multer_single :: "server_state \<Rightarrow> string option \<Rightarrow> server_state" where
  "multer_single st file =
     (case file of None \<Rightarrow> st | Some filename \<Rightarrow> st\<lparr>uploads := insert filename (uploads st)\<rparr>)"

section \<open>The handlers of server.js\<close>

text \<open>
  Every handler takes the state and returns the response and the new state.  The \<open>err\<close>
  of a database callback that the statement itself does not explain (the database is
  unreachable, the disk is full) is an argument: \<open>True\<close> means that this call fails.
\<close>

text \<open>\<open>POST /api/verify-password\<close>\<close>

definition verify_password :: "server_state \<Rightarrow> body \<Rightarrow> bool \<Rightarrow> response" where
  "verify_password st b err =
     (if err then status_json 500 ''Database error''
      else if (case admin_settings st of
                 None \<Rightarrow> False
               | Some password_hash \<Rightarrow> Some password_hash = body_password b)
      then json True None No_payload
      else json False (Some ''Incorrect password'') No_payload)"

text \<open>
  \<open>POST /api/change-password\<close>.  \<open>UPDATE admin_settings SET password_hash = ?\<close> with a
  \<open>NULL\<close> fails on \<open>NOT NULL\<close>.
\<close>

definition change_password :: "server_state \<Rightarrow> body \<Rightarrow> bool \<Rightarrow> bool \<Rightarrow> response \<times> server_state" where
  "change_password st b get_err run_err =
     (if get_err then (status_json 500 ''Database error'', st)
      else if (case admin_settings st of
                 None \<Rightarrow> False
               | Some password_hash \<Rightarrow> Some password_hash = body_oldPassword b)
      then (case body_newPassword b of
              None \<Rightarrow> (status_json 500 ''Failed to update password'', st)
            | Some newPassword \<Rightarrow>
                if run_err then (status_json 500 ''Failed to update password'', st)
                else (json True (Some ''Password changed successfully'') No_payload,
                      st\<lparr>admin_settings := Some newPassword\<rparr>))
      else (json False (Some ''Incorrect old password'') No_payload, st))"

text \<open>
  \<open>POST /api/upload-file\<close>, after \<open>upload.single('file')\<close>: \<open>file\<close> is
  \<open>req.file.filename\<close>.
\<close>

definition upload_file ::
  "server_state \<Rightarrow> body \<Rightarrow> string option \<Rightarrow> timestamp \<Rightarrow> bool \<Rightarrow> response \<times> server_state" where
  "upload_file st b file now err =
     (case file of
        None \<Rightarrow> (status_json 400 ''No file uploaded'', st)
      | Some filename \<Rightarrow>
          (if err then (status_json 500 ''Database error'', st)
           else
             (case insert_or_replace st (body_subject b) (body_feature b) (body_chapter b)
                     ''file'' (Some (''/uploads/'' @ filename)) None now of
                None \<Rightarrow> (status_json 500 ''Database error'', st)
              | Some st' \<Rightarrow>
                  (json True (Some ''File uploaded successfully'')
                     (File_path (''/uploads/'' @ filename)), st'))))"

text \<open>\<open>POST /api/save-text\<close>\<close>

definition save_text ::
  "server_state \<Rightarrow> body \<Rightarrow> timestamp \<Rightarrow> bool \<Rightarrow> response \<times> server_state" where
  "save_text st b now err =
     (if err then (status_json 500 ''Database error'', st)
      else
        (case insert_or_replace st (body_subject b) (body_feature b) (body_chapter b)
                ''text'' None (body_content b) now of
           None \<Rightarrow> (status_json 500 ''Database error'', st)
         | Some st' \<Rightarrow> (json True (Some ''Content saved successfully'') No_payload, st')))"

text \<open>
  \<open>GET /api/content/:subject/:feature/:chapter\<close>.  The parameter \<open>chapter\<close> comes from
  the URL as a decimal string and passes through no JSON number: \<open>c\<close> is the integer
  that this string denotes, which the comparison with the \<open>INTEGER\<close> column makes of it
  (exactly, within 64 bits).
\<close>

definition get_content :: "server_state \<Rightarrow> string \<Rightarrow> string \<Rightarrow> int \<Rightarrow> bool \<Rightarrow> response" where
  "get_content st s f c err =
     (if err then status_json 500 ''Database error''
      else
        (case find (\<lambda>r. slot_key r = (s, f, c)) (content st) of
           Some row \<Rightarrow> json True None (Content row)
         | None \<Rightarrow> json False (Some ''No content found'') No_payload))"

text \<open>
  \<open>DELETE /api/content/:id\<close>: the row is read, its file (if it names one) is unlinked,
  and then the row is deleted.  \<open>row && row.file_path\<close> is false for \<open>NULL\<close> and for
  the empty string.
\<close>

definition delete_content :: "server_state \<Rightarrow> int \<Rightarrow> bool \<Rightarrow> bool \<Rightarrow> response \<times> server_state" where
  "delete_content st i get_err run_err =
     (if get_err then (status_json 500 ''Database error'', st)
      else
        (let st1 =
               (case find (\<lambda>r. row_id r = i) (content st) of
                  None \<Rightarrow> st
                | Some row \<Rightarrow>
                    (case file_path row of
                       None \<Rightarrow> st
                     | Some p \<Rightarrow> if p = [] then st else unlink_if_exists st (basename p)))
         in if run_err then (status_json 500 ''Failed to delete'', st1)
            else (json True (Some ''Content deleted successfully'') No_payload,
                  st1\<lparr>content := filter (\<lambda>r. row_id r \<noteq> i) (content st1)\<rparr>)))"

section \<open>Requests served one after the other\<close>

text \<open>
  A request with what its handler reads from it, the time at which it is served and the
  outcome of its database calls.  \<open>Upload_file\<close> is an upload that \<open>fileFilter\<close> let
  through: \<open>upload.single('file')\<close> runs before the handler.
\<close>

datatype request =
    Verify_password body bool
  | Change_password body bool bool
  | Upload_file body "string option" timestamp bool
  | Save_text body timestamp bool
  | Get_content string string int bool
  | Delete_content int bool bool

fun handle :: "server_state \<Rightarrow> request \<Rightarrow> response \<times> server_state" where
  "handle st (Verify_password b err) = (verify_password st b err, st)"
| "handle st (Change_password b get_err run_err) = change_password st b get_err run_err"
| "handle st (Upload_file b file now err) = upload_file (multer_single st file) b file now err"
| "handle st (Save_text b now err) = save_text st b now err"
| "handle st (Get_content s f c err) = (get_content st s f c err, st)"
| "handle st (Delete_content i get_err run_err) = delete_content st i get_err run_err"

fun serve :: "server_state \<Rightarrow> request list \<Rightarrow> server_state" where
  "serve st [] = st"
| "serve st (r # rs) = serve (snd (handle st r)) rs"

text \<open>The state in which the server starts on a new database file.\<close>

definition started :: server_state where
  "started = initDatabase new_database"

text \<open>Request bodies: \<open>{}\<close>, \<open>{subject, feature, chapter}\<close> and \<open>{subject, feature, chapter, content}\<close>.\<close>

definition empty_body :: body where
  "empty_body =
     \<lparr>body_password = None, body_oldPassword = None, body_newPassword = None,
      body_subject = None, body_feature = None, body_chapter = None, body_content = None\<rparr>"

definition key_body :: "string \<Rightarrow> string \<Rightarrow> int \<Rightarrow> body" where
  "key_body s f c = empty_body\<lparr>body_subject := Some s, body_feature := Some f, body_chapter := Some c\<rparr>"

definition text_body :: "string \<Rightarrow> string \<Rightarrow> int \<Rightarrow> string \<Rightarrow> body" where
  "text_body s f c t = (key_body s f c)\<lparr>body_content := Some t\<rparr>"

section \<open>Blobs and the rows that reference them\<close>

text \<open>
  A row references the file \<open>n\<close> of \<open>uploads\<close> when its \<open>file_path\<close> is \<open>/uploads/n\<close>, the
  path that \<open>upload-file\<close> stores.  An orphan is a file of \<open>uploads\<close> that no row
  references.
\<close>

definition is_referenced :: "server_state \<Rightarrow> string \<Rightarrow> bool" where
  "is_referenced st n = (Some (''/uploads/'' @ n) \<in> set (map file_path (content st)))"

definition orphan :: "server_state \<Rightarrow> string \<Rightarrow> bool" where
  "orphan st n = (n \<in> uploads st \<and> \<not> is_referenced st n)"

definition password_body :: "string \<Rightarrow> body" where
  "password_body p = empty_body\<lparr>body_password := Some p\<rparr>"

definition change_body :: "string \<Rightarrow> string \<Rightarrow> body" where
  "change_body old new = empty_body\<lparr>body_oldPassword := Some old, body_newPassword := Some new\<rparr>"

section \<open>The credential handlers of the variant with bcrypt\<close>

text \<open>
  The second server file has the handlers of \<open>server.js\<close> with other message strings,
  and differs in the credential store: it stores \<open>bcrypt.hash(password, 10)\<close> and
  verifies with \<open>bcrypt.compare(password, row.password_hash)\<close>.  bcrypt is a library,
  so its two functions are arguments: \<open>hash salt data\<close> is the hash that
  \<open>bcrypt.hash(data, 10)\<close> returns when it draws \<open>salt\<close>, and \<open>compare data encrypted\<close>
  is the result of \<open>bcrypt.compare\<close>.  Both reject data that is not a string; the
  \<open>async\<close> callback then throws and no response is sent (\<open>None\<close>).
\<close>

definition initDatabase_bcrypt ::
  "(string \<Rightarrow> string \<Rightarrow> string) \<Rightarrow> string \<Rightarrow> server_state \<Rightarrow> server_state" where
  "initDatabase_bcrypt hash salt st =
     (case admin_settings st of
        None \<Rightarrow> st\<lparr>admin_settings := Some (hash salt defaultPassword)\<rparr>
      | Some row \<Rightarrow> st)"

definition verify_password_bcrypt ::
  "(string \<Rightarrow> string \<Rightarrow> bool) \<Rightarrow> server_state \<Rightarrow> body \<Rightarrow> bool \<Rightarrow> response option" where
  "verify_password_bcrypt compare st b err =
     (if err then Some (status_json 500 ''Database error'')
      else
        (case admin_settings st of
           None \<Rightarrow> Some (json False (Some ''Incorrect password'') No_payload)
         | Some password_hash \<Rightarrow>
             (case body_password b of
                None \<Rightarrow> None
              | Some password \<Rightarrow>
                  if compare password password_hash then Some (json True None No_payload)
                  else Some (json False (Some ''Incorrect password'') No_payload))))"

definition change_password_bcrypt ::
  "(string \<Rightarrow> string \<Rightarrow> string) \<Rightarrow> (string \<Rightarrow> string \<Rightarrow> bool) \<Rightarrow> string \<Rightarrow>
     server_state \<Rightarrow> body \<Rightarrow> bool \<Rightarrow> bool \<Rightarrow> response option \<times> server_state" where
  "change_password_bcrypt hash compare salt st b get_err run_err =
     (if get_err then (Some (status_json 500 ''Database error''), st)
      else
        (case admin_settings st of
           None \<Rightarrow> (Some (json False (Some ''Old password incorrect'') No_payload), st)
         | Some password_hash \<Rightarrow>
             (case body_oldPassword b of
                None \<Rightarrow> (None, st)
              | Some oldPassword \<Rightarrow>
                  if compare oldPassword password_hash
                  then (case body_newPassword b of
                          None \<Rightarrow> (None, st)
                        | Some newPassword \<Rightarrow>
                            if run_err
                            then (Some (status_json 500 ''Failed to update password''), st)
                            else (Some (json True (Some ''Password updated successfully!'') No_payload),
                                  st\<lparr>admin_settings := Some (hash salt newPassword)\<rparr>))
                  else (Some (json False (Some ''Old password incorrect'') No_payload), st))))"

section \<open>Auxiliary lemmas\<close>

lemmas request_defs =
  started_def initDatabase_def new_database_def defaultPassword_def
  empty_body_def key_body_def text_body_def password_body_def change_body_def
  save_text_def upload_file_def delete_content_def get_content_def
  verify_password_def change_password_def
  insert_or_replace_def next_rowid_def slot_key_def multer_single_def unlink_if_exists_def
  json_def status_json_def

lemmas bcrypt_defs = initDatabase_bcrypt_def verify_password_bcrypt_def change_password_bcrypt_def

lemma fold_max_ge_init: "(s::int) \<le> fold max xs s"
  by (induction xs arbitrary: s) (auto intro: order_trans[OF max.cobounded2])

lemma fold_max_ge_elem: "x \<in> set xs \<Longrightarrow> (x::int) \<le> fold max xs s"
proof (induction xs arbitrary: s)
  case Nil
  then show ?case by simp
next
  case (Cons y ys)
  show ?case
  proof (cases "x = y")
    case True
    have "y \<le> max y s" by simp
    also have "\<dots> \<le> fold max ys (max y s)" by (rule fold_max_ge_init)
    finally show ?thesis using True by simp
  next
    case False
    with Cons show ?thesis by simp
  qed
qed

lemma next_rowid_fresh: "r \<in> set (content st) \<Longrightarrow> row_id r < next_rowid st"
  using fold_max_ge_elem[of "row_id r" "map row_id (content st)" "content_seq st"]
  by (simp add: next_rowid_def)

lemma find_SomeD: "find P xs = Some x \<Longrightarrow> P x \<and> x \<in> set xs"
  by (induction xs) (auto split: if_splits)

lemma find_filter_append:
  "find P (filter (\<lambda>x. \<not> P x) xs @ [r]) = (if P r then Some r else None)"
  by (induction xs) auto

lemma content_insert_or_replace:
  "insert_or_replace st (Some s) (Some f) (Some c) ctype fpath txt now = Some st' \<Longrightarrow>
   content st' =
     filter (\<lambda>r. \<not> slot_key r = (s, f, c)) (content st) @
     [\<lparr>row_id = next_rowid st, subject = s, feature = f, chapter_no = c,
       content_type = ctype, file_path = fpath, text_content = txt,
       created_at = now, updated_at = now\<rparr>]"
  by (auto simp: insert_or_replace_def)

lemma find_key_insert_or_replace:
  "insert_or_replace st (Some s) (Some f) (Some c) ctype fpath txt now = Some st' \<Longrightarrow>
   find (\<lambda>r. slot_key r = (s, f, c)) (content st') =
     Some \<lparr>row_id = next_rowid st, subject = s, feature = f, chapter_no = c,
            content_type = ctype, file_path = fpath, text_content = txt,
            created_at = now, updated_at = now\<rparr>"
  by (simp only: content_insert_or_replace find_filter_append) (simp add: slot_key_def)

lemma save_text_ok:
  assumes "body_subject b = Some s" and "body_feature b = Some f" and "body_chapter b = Some c"
  shows "\<exists>st'. insert_or_replace st (Some s) (Some f) (Some c) ''text'' None (body_content b) now = Some st' \<and>
          save_text st b now False = (json True (Some ''Content saved successfully'') No_payload, st')"
  using assms by (simp add: save_text_def insert_or_replace_def)

lemma upload_file_ok:
  assumes "body_subject b = Some s" and "body_feature b = Some f" and "body_chapter b = Some c"
  shows "\<exists>st'. insert_or_replace st (Some s) (Some f) (Some c) ''file'' (Some (''/uploads/'' @ n)) None now = Some st' \<and>
          upload_file st b (Some n) now False =
            (json True (Some ''File uploaded successfully'') (File_path (''/uploads/'' @ n)), st')"
  using assms by (simp add: upload_file_def insert_or_replace_def)

lemma insert_or_replace_frame:
  "insert_or_replace st subj feat chap ctype fpath txt now = Some st' \<Longrightarrow>
   uploads st' = uploads st \<and> admin_settings st' = admin_settings st"
  by (auto simp: insert_or_replace_def split: option.splits)

lemma distinct_keys_insert_or_replace:
  "insert_or_replace st subj feat chap ctype fpath txt now = Some st' \<Longrightarrow>
   distinct (map slot_key (content st)) \<Longrightarrow> distinct (map slot_key (content st'))"
  by (auto simp: insert_or_replace_def distinct_map_filter slot_key_def split: option.splits)

lemma distinct_ids_insert_or_replace:
  "insert_or_replace st subj feat chap ctype fpath txt now = Some st' \<Longrightarrow>
   distinct (map row_id (content st)) \<Longrightarrow> distinct (map row_id (content st'))"
  using next_rowid_fresh[of _ st]
  by (fastforce simp: insert_or_replace_def distinct_map_filter split: option.splits)

lemma content_unlink_if_exists: "content (unlink_if_exists st n) = content st"
  by (simp add: unlink_if_exists_def)

lemma unlink_if_exists_eq: "unlink_if_exists st n = st\<lparr>uploads := uploads st - {n}\<rparr>"
  by (cases "n \<in> uploads st") (simp_all add: unlink_if_exists_def)

lemma content_multer_single: "content (multer_single st file) = content st"
  by (simp add: multer_single_def split: option.splits)

lemma content_change_password: "content (snd (change_password st b e1 e2)) = content st"
  by (simp add: change_password_def split: option.splits)

lemma content_delete_content:
  "content (snd (delete_content st i e1 e2)) =
     (if e1 \<or> e2 then content st else filter (\<lambda>r. row_id r \<noteq> i) (content st))"
  by (simp add: delete_content_def Let_def content_unlink_if_exists split: option.splits)

lemma content_save_text:
  "content (snd (save_text st b now e)) = content st \<or>
   (\<exists>st'. insert_or_replace st (body_subject b) (body_feature b) (body_chapter b)
            ''text'' None (body_content b) now = Some st' \<and>
          content (snd (save_text st b now e)) = content st')"
  by (simp add: save_text_def split: option.splits)

lemma content_upload_file:
  "content (snd (upload_file st b file now e)) = content st \<or>
   (\<exists>st' n. insert_or_replace st (body_subject b) (body_feature b) (body_chapter b)
            ''file'' (Some (''/uploads/'' @ n)) None now = Some st' \<and>
          content (snd (upload_file st b file now e)) = content st')"
  by (auto simp: upload_file_def split: option.splits)

lemma handle_distinct_keys:
  assumes "distinct (map slot_key (content st))"
  shows "distinct (map slot_key (content (snd (handle st r))))"
proof (cases r)
  case (Verify_password b err)
  with assms show ?thesis by simp
next
  case (Change_password b e1 e2)
  with assms show ?thesis by (simp add: content_change_password)
next
  case (Upload_file b fl now err)
  have "distinct (map slot_key (content (multer_single st fl)))"
    using assms by (simp add: content_multer_single)
  then have "distinct (map slot_key (content (snd (upload_file (multer_single st fl) b fl now err))))"
    using content_upload_file[of "multer_single st fl" b fl now err]
    by (auto dest: distinct_keys_insert_or_replace)
  with Upload_file show ?thesis by simp
next
  case (Save_text b now err)
  have "distinct (map slot_key (content (snd (save_text st b now err))))"
    using assms content_save_text[of st b now err]
    by (auto dest: distinct_keys_insert_or_replace)
  with Save_text show ?thesis by simp
next
  case (Get_content s f c err)
  with assms show ?thesis by simp
next
  case (Delete_content i e1 e2)
  with assms show ?thesis by (simp add: content_delete_content distinct_map_filter)
qed

lemma handle_distinct_ids:
  assumes "distinct (map row_id (content st))"
  shows "distinct (map row_id (content (snd (handle st r))))"
proof (cases r)
  case (Verify_password b err)
  with assms show ?thesis by simp
next
  case (Change_password b e1 e2)
  with assms show ?thesis by (simp add: content_change_password)
next
  case (Upload_file b fl now err)
  have "distinct (map row_id (content (multer_single st fl)))"
    using assms by (simp add: content_multer_single)
  then have "distinct (map row_id (content (snd (upload_file (multer_single st fl) b fl now err))))"
    using content_upload_file[of "multer_single st fl" b fl now err]
    by (auto dest: distinct_ids_insert_or_replace)
  with Upload_file show ?thesis by simp
next
  case (Save_text b now err)
  have "distinct (map row_id (content (snd (save_text st b now err))))"
    using assms content_save_text[of st b now err]
    by (auto dest: distinct_ids_insert_or_replace)
  with Save_text show ?thesis by simp
next
  case (Get_content s f c err)
  with assms show ?thesis by simp
next
  case (Delete_content i e1 e2)
  with assms show ?thesis by (simp add: content_delete_content distinct_map_filter)
qed

lemma serve_distinct_keys:
  "distinct (map slot_key (content st)) \<Longrightarrow> distinct (map slot_key (content (serve st rs)))"
  by (induction rs arbitrary: st) (simp_all add: handle_distinct_keys)

lemma serve_distinct_ids:
  "distinct (map row_id (content st)) \<Longrightarrow> distinct (map row_id (content (serve st rs)))"
  by (induction rs arbitrary: st) (simp_all add: handle_distinct_ids)

lemma content_started: "content started = []"
  by (simp add: started_def initDatabase_def new_database_def)

lemma delete_content_no_row:
  assumes "find (\<lambda>r. row_id r = i) (content st) = None"
  shows "delete_content st i False False =
           (json True (Some ''Content deleted successfully'') No_payload, st)"
proof -
  have "filter (\<lambda>r. row_id r \<noteq> i) (content st) = content st"
    using assms by (auto simp: find_None_iff filter_id_conv)
  with assms show ?thesis by (simp add: delete_content_def)
qed

lemma old_id_gone:
  assumes ids: "distinct (map row_id (content st))"
    and old: "find (\<lambda>r. slot_key r = k) (content st) = Some old"
    and new: "row_id new = next_rowid st"
  shows "find (\<lambda>r. row_id r = row_id old)
           (filter (\<lambda>r. \<not> slot_key r = k) (content st) @ [new]) = None"
proof -
  have o: "slot_key old = k" "old \<in> set (content st)"
    using find_SomeD[OF old] by simp_all
  have "row_id r \<noteq> row_id old" if "r \<in> set (content st)" "slot_key r \<noteq> k" for r
  proof
    assume "row_id r = row_id old"
    with ids that(1) o(2) have "r = old"
      by (auto simp: distinct_map dest: inj_onD)
    with that(2) o(1) show False by simp
  qed
  moreover have "row_id new \<noteq> row_id old"
    using next_rowid_fresh[OF o(2)] new by simp
  ultimately show ?thesis
    by (auto simp: find_None_iff)
qed

lemma replace_retires_id:
  assumes ids: "distinct (map row_id (content st))"
    and old: "find (\<lambda>r. slot_key r = (s, f, c)) (content st) = Some old"
    and ins: "insert_or_replace st (Some s) (Some f) (Some c) ctype fpath txt now = Some st'"
  shows "(\<exists>new. find (\<lambda>r. slot_key r = (s, f, c)) (content st') = Some new \<and>
                 row_id old < row_id new) \<and>
         find (\<lambda>r. row_id r = row_id old) (content st') = None \<and>
         delete_content st' (row_id old) False False =
           (json True (Some ''Content deleted successfully'') No_payload, st')"
proof -
  have "old \<in> set (content st)"
    using find_SomeD[OF old] by simp
  then have fresh: "row_id old < next_rowid st"
    by (rule next_rowid_fresh)
  have gone: "find (\<lambda>r. row_id r = row_id old) (content st') = None"
    unfolding content_insert_or_replace[OF ins]
    by (rule old_id_gone[OF ids old]) simp
  show ?thesis
    using fresh gone delete_content_no_row[OF gone]
    by (simp add: find_key_insert_or_replace[OF ins])
qed

lemma not_referenced_after_replace:
  assumes ins: "insert_or_replace st (Some s) (Some f) (Some c) ctype fpath txt now = Some st'"
    and only: "\<forall>r\<in>set (content st). file_path r = Some (''/uploads/'' @ n) \<longrightarrow> slot_key r = (s, f, c)"
    and new: "fpath \<noteq> Some (''/uploads/'' @ n)"
  shows "\<not> is_referenced st' n"
  using only new unfolding is_referenced_def content_insert_or_replace[OF ins]
  by auto

section \<open>One item for each key\<close>

text \<open>
  C3: for every Slot Key at most one live Content Item exists at any time: in every
  state that the server reaches from a new database, whatever the requests and whatever
  the outcome of their database calls, no two rows of \<open>content\<close> hold the same key.  In
  particular, from any state, put_text on a key with the text "A" and then with the
  text "B" both succeed and leave exactly one row for that key, whose text is "B".
\<close>

theorem one_item_per_key:
  "distinct (map slot_key (content (serve started reqs))) \<and>
   success (fst (save_text st (text_body s f c ''A'') t1 False)) \<and>
   success (fst (save_text (snd (save_text st (text_body s f c ''A'') t1 False))
                   (text_body s f c ''B'') t2 False)) \<and>
   map text_content
     (filter (\<lambda>r. slot_key r = (s, f, c))
        (content (snd (save_text (snd (save_text st (text_body s f c ''A'') t1 False))
                         (text_body s f c ''B'') t2 False)))) = [Some ''B'']"
proof -
  have inv: "distinct (map slot_key (content (serve started reqs)))"
    by (rule serve_distinct_keys) (simp add: content_started)
  have key: "body_subject (text_body s f c t) = Some s \<and> body_feature (text_body s f c t) = Some f \<and>
      body_chapter (text_body s f c t) = Some c \<and> body_content (text_body s f c t) = Some t" for t
    by (simp add: text_body_def key_body_def empty_body_def)
  obtain st1 where ins1:
      "insert_or_replace st (Some s) (Some f) (Some c) ''text'' None (Some ''A'') t1 = Some st1"
    and run1: "save_text st (text_body s f c ''A'') t1 False =
      (json True (Some ''Content saved successfully'') No_payload, st1)"
    using save_text_ok[of "text_body s f c ''A''" s f c st t1] key[of "''A''"] by auto
  obtain st2 where ins2:
      "insert_or_replace st1 (Some s) (Some f) (Some c) ''text'' None (Some ''B'') t2 = Some st2"
    and run2: "save_text st1 (text_body s f c ''B'') t2 False =
      (json True (Some ''Content saved successfully'') No_payload, st2)"
    using save_text_ok[of "text_body s f c ''B''" s f c st1 t2] key[of "''B''"] by auto
  have "map text_content (filter (\<lambda>r. slot_key r = (s, f, c)) (content st2)) = [Some ''B'']"
    by (simp add: content_insert_or_replace[OF ins2] slot_key_def)
  with inv run1 run2 show ?thesis by (simp add: json_def)
qed

theorem one_item_per_key_witness:
  "distinct (map slot_key (content (serve started
      [Save_text (text_body ''math'' ''notes'' 1 ''A'') 1 False,
       Upload_file (key_body ''math'' ''notes'' 1) (Some ''17-33.pdf'') 2 False,
       Save_text (text_body ''math'' ''notes'' 2 ''B'') 3 False]))) \<and>
   success (fst (save_text started (text_body ''math'' ''notes'' 1 ''A'') 1 False)) \<and>
   success (fst (save_text (snd (save_text started (text_body ''math'' ''notes'' 1 ''A'') 1 False))
                   (text_body ''math'' ''notes'' 1 ''B'') 2 False)) \<and>
   map text_content
     (filter (\<lambda>r. slot_key r = (''math'', ''notes'', 1))
        (content (snd (save_text (snd (save_text started (text_body ''math'' ''notes'' 1 ''A'') 1 False))
                         (text_body ''math'' ''notes'' 1 ''B'') 2 False)))) = [Some ''B'']"
  by (rule one_item_per_key)

section \<open>Reading back a saved text\<close>

text \<open>
  C9, as the code has it: for every Slot Key whose chapter is an integer of magnitude at
  most \<open>2^53 = 9007199254740992\<close> and every string text, the empty string included,
  put_text (\<open>save-text\<close>, whose body arrives through \<open>express.json()\<close>) followed by get
  (\<open>GET /api/content\<close>) on the same key returns a Content Item whose text is the saved
  text and whose type is TEXT.  Subject and feature are any strings, so the non-empty
  ones too.  Neither database call fails.
\<close>

theorem save_text_then_get_content:
  assumes "body_subject b = Some s" and "body_feature b = Some f"
    and "body_chapter b = Some (json_number c)" and "body_content b = Some t"
    and "\<bar>c\<bar> \<le> 9007199254740992"
  shows "success (fst (save_text st b now False)) \<and>
         (\<exists>row. get_content (snd (save_text st b now False)) s f c False =
                   json True None (Content row) \<and>
                 text_content row = Some t \<and> content_type row = ''text'')"
proof -
  have chap: "body_chapter b = Some c"
    using assms(3,5) by (simp add: json_number_def)
  obtain st' where ins:
    "insert_or_replace st (Some s) (Some f) (Some c) ''text'' None (Some t) now = Some st'"
    by (simp add: insert_or_replace_def)
  have run: "save_text st b now False =
      (json True (Some ''Content saved successfully'') No_payload, st')"
    using assms(1,2,4) chap ins by (simp add: save_text_def)
  have "get_content st' s f c False =
      json True None (Content \<lparr>row_id = next_rowid st, subject = s, feature = f, chapter_no = c,
            content_type = ''text'', file_path = None, text_content = Some t,
            created_at = now, updated_at = now\<rparr>)"
    by (simp add: get_content_def find_key_insert_or_replace[OF ins])
  with run show ?thesis by (simp add: json_def)
qed

text \<open>
  Two instances: a text saved over an uploaded file at the chapter \<open>2^53\<close>, in a state
  that holds a second row, and the empty text saved on the new database.
\<close>

theorem save_text_then_get_content_witness:
  "body_subject (text_body ''math'' ''notes'' (json_number 9007199254740992) ''hello'') = Some ''math'' \<and>
   body_feature (text_body ''math'' ''notes'' (json_number 9007199254740992) ''hello'') = Some ''notes'' \<and>
   body_chapter (text_body ''math'' ''notes'' (json_number 9007199254740992) ''hello'') =
     Some (json_number 9007199254740992) \<and>
   body_content (text_body ''math'' ''notes'' (json_number 9007199254740992) ''hello'') = Some ''hello'' \<and>
   \<bar>9007199254740992 :: int\<bar> \<le> 9007199254740992 \<and>
   map slot_key (content (serve started
       [Upload_file (key_body ''math'' ''notes'' 9007199254740992) (Some ''17-33.pdf'') 10 False,
        Save_text (text_body ''bio'' ''quiz'' 2 ''x'') 11 False])) =
     [(''math'', ''notes'', 9007199254740992), (''bio'', ''quiz'', 2)] \<and>
   success (fst (save_text
      (serve started
         [Upload_file (key_body ''math'' ''notes'' 9007199254740992) (Some ''17-33.pdf'') 10 False,
          Save_text (text_body ''bio'' ''quiz'' 2 ''x'') 11 False])
      (text_body ''math'' ''notes'' (json_number 9007199254740992) ''hello'') 20 False)) \<and>
   (\<exists>row. get_content (snd (save_text
              (serve started
                 [Upload_file (key_body ''math'' ''notes'' 9007199254740992) (Some ''17-33.pdf'') 10 False,
                  Save_text (text_body ''bio'' ''quiz'' 2 ''x'') 11 False])
              (text_body ''math'' ''notes'' (json_number 9007199254740992) ''hello'') 20 False))
            ''math'' ''notes'' 9007199254740992 False = json True None (Content row) \<and>
          text_content row = Some ''hello'' \<and> content_type row = ''text'') \<and>
   body_content (text_body ''math'' ''notes'' (json_number 1) []) = Some [] \<and>
   success (fst (save_text started (text_body ''math'' ''notes'' (json_number 1) []) 7 False)) \<and>
   (\<exists>row. get_content (snd (save_text started (text_body ''math'' ''notes'' (json_number 1) []) 7 False))
              ''math'' ''notes'' 1 False = json True None (Content row) \<and>
           text_content row = Some [] \<and> content_type row = ''text'')"
proof -
  let ?b = "text_body ''math'' ''notes'' (json_number 9007199254740992) ''hello''"
  let ?e = "text_body ''math'' ''notes'' (json_number 1) []"
  let ?st = "serve started
       [Upload_file (key_body ''math'' ''notes'' 9007199254740992) (Some ''17-33.pdf'') 10 False,
        Save_text (text_body ''bio'' ''quiz'' 2 ''x'') 11 False]"
  have h1: "body_subject ?b = Some ''math''"
    by (simp add: text_body_def key_body_def empty_body_def)
  have h2: "body_feature ?b = Some ''notes''"
    by (simp add: text_body_def key_body_def empty_body_def)
  have h3: "body_chapter ?b = Some (json_number 9007199254740992)"
    by (simp add: text_body_def key_body_def empty_body_def)
  have h4: "body_content ?b = Some ''hello''"
    by (simp add: text_body_def key_body_def empty_body_def)
  have h5: "\<bar>9007199254740992 :: int\<bar> \<le> 9007199254740992" by simp
  have g1: "body_subject ?e = Some ''math''"
    by (simp add: text_body_def key_body_def empty_body_def)
  have g2: "body_feature ?e = Some ''notes''"
    by (simp add: text_body_def key_body_def empty_body_def)
  have g3: "body_chapter ?e = Some (json_number 1)"
    by (simp add: text_body_def key_body_def empty_body_def)
  have g4: "body_content ?e = Some []"
    by (simp add: text_body_def key_body_def empty_body_def)
  have g5: "\<bar>1 :: int\<bar> \<le> 9007199254740992" by simp
  have keys: "map slot_key (content ?st) =
      [(''math'', ''notes'', 9007199254740992), (''bio'', ''quiz'', 2)]"
    by (simp add: request_defs)
  show ?thesis
    using save_text_then_get_content[OF h1 h2 h3 h4 h5, of ?st 20]
      save_text_then_get_content[OF g1 g2 g3 g4 g5, of started 7]
      h1 h2 h3 h4 h5 g4 keys
    by blast
qed

text \<open>
  The client saves a text at the chapter \<open>9007199254740993 = 2^53 + 1\<close>, written as a
  JSON number.  The handler receives 9007199254740992, the save is answered with
  success and stores that chapter, and the get of the chapter 9007199254740993 is
  answered "No content found".
\<close>

theorem large_chapter_not_read_back:
  "json_number 9007199254740993 = 9007199254740992 \<and>
   success (fst (save_text started
      (text_body ''math'' ''notes'' (json_number 9007199254740993) ''hi'') 5 False)) \<and>
   map chapter_no (content (snd (save_text started
      (text_body ''math'' ''notes'' (json_number 9007199254740993) ''hi'') 5 False))) =
     [9007199254740992] \<and>
   get_content (snd (save_text started
      (text_body ''math'' ''notes'' (json_number 9007199254740993) ''hi'') 5 False))
     ''math'' ''notes'' 9007199254740993 False =
     json False (Some ''No content found'') No_payload"
proof -
  have "dropped_bits 9007199254740993 = 1"
    by (simp add: dropped_bits.simps)
  then have "json_number 9007199254740993 = 9007199254740992"
    by (simp add: json_number_def)
  then show ?thesis
    by (simp add: request_defs)
qed

section \<open>The id of a replaced item\<close>

text \<open>
  C10, as the code has it: in every state that the server reaches from a new database, a
  replace (put_text or put_file on a Slot Key that holds an item) gives the resulting
  item an id strictly greater than the old one; no row has the old id any more, and a
  later delete with the old id leaves the state, the current item included, as it is.
  That delete is answered with success: the handler has no NotFound answer.
\<close>

theorem replace_assigns_fresh_id:
  assumes "body_subject b = Some s" and "body_feature b = Some f" and "body_chapter b = Some c"
    and "find (\<lambda>r. slot_key r = (s, f, c)) (content (serve started reqs)) = Some old"
  shows "(\<exists>new. find (\<lambda>r. slot_key r = (s, f, c))
                  (content (snd (save_text (serve started reqs) b now False))) = Some new \<and>
                row_id old < row_id new) \<and>
         find (\<lambda>r. row_id r = row_id old)
           (content (snd (save_text (serve started reqs) b now False))) = None \<and>
         delete_content (snd (save_text (serve started reqs) b now False)) (row_id old) False False =
           (json True (Some ''Content deleted successfully'') No_payload,
            snd (save_text (serve started reqs) b now False)) \<and>
         (\<exists>new. find (\<lambda>r. slot_key r = (s, f, c))
                  (content (snd (handle (serve started reqs) (Upload_file b (Some n) now False)))) = Some new \<and>
                row_id old < row_id new) \<and>
         find (\<lambda>r. row_id r = row_id old)
           (content (snd (handle (serve started reqs) (Upload_file b (Some n) now False)))) = None \<and>
         delete_content (snd (handle (serve started reqs) (Upload_file b (Some n) now False)))
             (row_id old) False False =
           (json True (Some ''Content deleted successfully'') No_payload,
            snd (handle (serve started reqs) (Upload_file b (Some n) now False)))"
proof -
  let ?st = "serve started reqs"
  let ?m = "multer_single ?st (Some n)"
  have ids: "distinct (map row_id (content ?st))"
    by (rule serve_distinct_ids) (simp add: content_started)
  have ids': "distinct (map row_id (content ?m))"
    using ids by (simp add: content_multer_single)
  have old': "find (\<lambda>r. slot_key r = (s, f, c)) (content ?m) = Some old"
    using assms(4) by (simp add: content_multer_single)
  obtain st1 where ins1:
      "insert_or_replace ?st (Some s) (Some f) (Some c) ''text'' None (body_content b) now = Some st1"
    and run1: "save_text ?st b now False =
      (json True (Some ''Content saved successfully'') No_payload, st1)"
    using save_text_ok[OF assms(1-3), of ?st now] by auto
  obtain st2 where ins2:
      "insert_or_replace ?m (Some s) (Some f) (Some c) ''file'' (Some (''/uploads/'' @ n)) None now = Some st2"
    and run2: "upload_file ?m b (Some n) now False =
      (json True (Some ''File uploaded successfully'') (File_path (''/uploads/'' @ n)), st2)"
    using upload_file_ok[OF assms(1-3), of ?m n now] by auto
  show ?thesis
    using replace_retires_id[OF ids assms(4) ins1] replace_retires_id[OF ids' old' ins2]
    unfolding handle.simps run1 run2 snd_conv by simp
qed

theorem replace_assigns_fresh_id_witness:
  "body_subject (text_body ''math'' ''notes'' 1 ''B'') = Some ''math'' \<and>
   body_feature (text_body ''math'' ''notes'' 1 ''B'') = Some ''notes'' \<and>
   body_chapter (text_body ''math'' ''notes'' 1 ''B'') = Some 1 \<and>
   find (\<lambda>r. slot_key r = (''math'', ''notes'', 1))
     (content (serve started [Save_text (text_body ''math'' ''notes'' 1 ''A'') 10 False])) =
     Some \<lparr>row_id = 1, subject = ''math'', feature = ''notes'', chapter_no = 1,
            content_type = ''text'', file_path = None, text_content = Some ''A'',
            created_at = 10, updated_at = 10\<rparr> \<and>
   find (\<lambda>r. row_id r = 1)
     (content (snd (save_text (serve started [Save_text (text_body ''math'' ''notes'' 1 ''A'') 10 False])
                      (text_body ''math'' ''notes'' 1 ''B'') 20 False))) = None \<and>
   find (\<lambda>r. row_id r = 1)
     (content (snd (handle (serve started [Save_text (text_body ''math'' ''notes'' 1 ''A'') 10 False])
                      (Upload_file (text_body ''math'' ''notes'' 1 ''B'') (Some ''17-33.pdf'') 20 False)))) = None"
proof -
  let ?b = "text_body ''math'' ''notes'' 1 ''B''"
  let ?reqs = "[Save_text (text_body ''math'' ''notes'' 1 ''A'') 10 False]"
  let ?old = "\<lparr>row_id = 1, subject = ''math'', feature = ''notes'', chapter_no = 1,
            content_type = ''text'', file_path = None, text_content = Some ''A'',
            created_at = 10, updated_at = 10\<rparr>"
  have h1: "body_subject ?b = Some ''math''" by (simp add: request_defs)
  have h2: "body_feature ?b = Some ''notes''" by (simp add: request_defs)
  have h3: "body_chapter ?b = Some 1" by (simp add: request_defs)
  have h4: "find (\<lambda>r. slot_key r = (''math'', ''notes'', 1)) (content (serve started ?reqs)) = Some ?old"
    by (simp add: request_defs)
  show ?thesis
    using replace_assigns_fresh_id[OF h1 h2 h3 h4, of 20 "''17-33.pdf''"] h1 h2 h3 h4 by simp
qed

text \<open>
  A text is saved (id 1) and replaced (id 2).  The delete of id 1 is then answered with
  \<open>success: true\<close> and "Content deleted successfully", not with NotFound.
\<close>

theorem delete_old_id_reports_success:
  "find (\<lambda>r. slot_key r = (''math'', ''notes'', 1))
     (content (serve started [Save_text (text_body ''math'' ''notes'' 1 ''A'') 10 False])) =
     Some \<lparr>row_id = 1, subject = ''math'', feature = ''notes'', chapter_no = 1,
            content_type = ''text'', file_path = None, text_content = Some ''A'',
            created_at = 10, updated_at = 10\<rparr> \<and>
   success (fst (delete_content
       (serve started [Save_text (text_body ''math'' ''notes'' 1 ''A'') 10 False,
                       Save_text (text_body ''math'' ''notes'' 1 ''B'') 20 False]) 1 False False)) \<and>
   message (fst (delete_content
       (serve started [Save_text (text_body ''math'' ''notes'' 1 ''A'') 10 False,
                       Save_text (text_body ''math'' ''notes'' 1 ''B'') 20 False]) 1 False False)) =
     Some ''Content deleted successfully''"
  by (simp add: request_defs)

section \<open>The creation time of a replaced item\<close>

text \<open>
  C4, as the code has it: a replacing put_text or put_file on a Slot Key that holds an
  item deletes the old row and inserts a new one, whose \<open>created_at\<close> and \<open>updated_at\<close>
  are both the time of the replacing write.  The \<open>created_at\<close> of the replaced item is
  not kept.
\<close>

theorem replace_resets_created_at:
  assumes "body_subject b = Some s" and "body_feature b = Some f" and "body_chapter b = Some c"
    and "find (\<lambda>r. slot_key r = (s, f, c)) (content st) = Some old"
  shows "(\<exists>new. find (\<lambda>r. slot_key r = (s, f, c))
                  (content (snd (save_text st b now False))) = Some new \<and>
                created_at new = now \<and> updated_at new = now) \<and>
         (\<exists>new. find (\<lambda>r. slot_key r = (s, f, c))
                  (content (snd (handle st (Upload_file b (Some n) now False)))) = Some new \<and>
                created_at new = now \<and> updated_at new = now)"
proof -
  let ?m = "multer_single st (Some n)"
  obtain st1 where ins1:
      "insert_or_replace st (Some s) (Some f) (Some c) ''text'' None (body_content b) now = Some st1"
    and run1: "save_text st b now False =
      (json True (Some ''Content saved successfully'') No_payload, st1)"
    using save_text_ok[OF assms(1-3), of st now] by auto
  obtain st2 where ins2:
      "insert_or_replace ?m (Some s) (Some f) (Some c) ''file'' (Some (''/uploads/'' @ n)) None now = Some st2"
    and run2: "upload_file ?m b (Some n) now False =
      (json True (Some ''File uploaded successfully'') (File_path (''/uploads/'' @ n)), st2)"
    using upload_file_ok[OF assms(1-3), of ?m n now] by auto
  show ?thesis
    unfolding handle.simps run1 run2 snd_conv
    by (simp add: find_key_insert_or_replace[OF ins1] find_key_insert_or_replace[OF ins2])
qed

theorem replace_resets_created_at_witness:
  "body_subject (text_body ''math'' ''notes'' 1 ''B'') = Some ''math'' \<and>
   body_feature (text_body ''math'' ''notes'' 1 ''B'') = Some ''notes'' \<and>
   body_chapter (text_body ''math'' ''notes'' 1 ''B'') = Some 1 \<and>
   find (\<lambda>r. slot_key r = (''math'', ''notes'', 1))
     (content (serve started [Save_text (text_body ''math'' ''notes'' 1 ''A'') 10 False])) =
     Some \<lparr>row_id = 1, subject = ''math'', feature = ''notes'', chapter_no = 1,
            content_type = ''text'', file_path = None, text_content = Some ''A'',
            created_at = 10, updated_at = 10\<rparr> \<and>
   (\<exists>new. find (\<lambda>r. slot_key r = (''math'', ''notes'', 1))
            (content (snd (save_text (serve started [Save_text (text_body ''math'' ''notes'' 1 ''A'') 10 False])
                             (text_body ''math'' ''notes'' 1 ''B'') 20 False))) = Some new \<and>
          created_at new = 20 \<and> updated_at new = 20)"
proof -
  let ?b = "text_body ''math'' ''notes'' 1 ''B''"
  let ?reqs = "[Save_text (text_body ''math'' ''notes'' 1 ''A'') 10 False]"
  let ?old = "\<lparr>row_id = 1, subject = ''math'', feature = ''notes'', chapter_no = 1,
            content_type = ''text'', file_path = None, text_content = Some ''A'',
            created_at = 10, updated_at = 10\<rparr>"
  have h1: "body_subject ?b = Some ''math''" by (simp add: request_defs)
  have h2: "body_feature ?b = Some ''notes''" by (simp add: request_defs)
  have h3: "body_chapter ?b = Some 1" by (simp add: request_defs)
  have h4: "find (\<lambda>r. slot_key r = (''math'', ''notes'', 1)) (content (serve started ?reqs)) = Some ?old"
    by (simp add: request_defs)
  show ?thesis
    using replace_resets_created_at[OF h1 h2 h3 h4, of 20 "''17-33.pdf''"] h1 h2 h3 h4 by simp
qed

text \<open>
  A text saved at time 10 has \<open>created_at = 10\<close>; after the same key is saved again at
  time 20, its only row has \<open>created_at = 20\<close>.
\<close>

theorem replace_changes_created_at:
  "map created_at
     (content (serve started [Save_text (text_body ''math'' ''notes'' 1 ''A'') 10 False])) = [10] \<and>
   map slot_key
     (content (serve started [Save_text (text_body ''math'' ''notes'' 1 ''A'') 10 False])) =
     [(''math'', ''notes'', 1)] \<and>
   map created_at
     (content (serve started [Save_text (text_body ''math'' ''notes'' 1 ''A'') 10 False,
                              Save_text (text_body ''math'' ''notes'' 1 ''B'') 20 False])) = [20] \<and>
   map slot_key
     (content (serve started [Save_text (text_body ''math'' ''notes'' 1 ''A'') 10 False,
                              Save_text (text_body ''math'' ''notes'' 1 ''B'') 20 False])) =
     [(''math'', ''notes'', 1)]"
  by (simp add: request_defs)

section \<open>The blob of a replaced file item\<close>

text \<open>
  C1, as the code has it: when a Slot Key holds a FILE item whose blob is stored, a
  replacing write on that key (put_text with any text, or put_file with another blob)
  succeeds and removes nothing from the Blob Repository: put_text leaves \<open>uploads\<close> as it
  is, put_file only adds the new blob.  The blob that the replaced item referenced is
  still stored, and when no item of another key references it, it is an orphan after
  the operation.
\<close>

theorem replace_keeps_old_blob:
  assumes "body_subject b = Some s" and "body_feature b = Some f" and "body_chapter b = Some c"
    and "find (\<lambda>r. slot_key r = (s, f, c)) (content st) = Some old"
    and "file_path old = Some (''/uploads/'' @ n)"
    and "n \<in> uploads st"
    and "\<forall>r\<in>set (content st). file_path r = Some (''/uploads/'' @ n) \<longrightarrow> slot_key r = (s, f, c)"
    and "n' \<noteq> n"
  shows "success (fst (save_text st b now False)) \<and>
         uploads (snd (save_text st b now False)) = uploads st \<and>
         orphan (snd (save_text st b now False)) n \<and>
         success (fst (handle st (Upload_file b (Some n') now False))) \<and>
         uploads (snd (handle st (Upload_file b (Some n') now False))) = insert n' (uploads st) \<and>
         orphan (snd (handle st (Upload_file b (Some n') now False))) n"
proof -
  let ?m = "multer_single st (Some n')"
  have only': "\<forall>r\<in>set (content ?m). file_path r = Some (''/uploads/'' @ n) \<longrightarrow> slot_key r = (s, f, c)"
    using assms(7) by (simp add: content_multer_single)
  have up: "uploads ?m = insert n' (uploads st)"
    by (simp add: multer_single_def)
  obtain st1 where ins1:
      "insert_or_replace st (Some s) (Some f) (Some c) ''text'' None (body_content b) now = Some st1"
    and run1: "save_text st b now False =
      (json True (Some ''Content saved successfully'') No_payload, st1)"
    using save_text_ok[OF assms(1-3), of st now] by auto
  obtain st2 where ins2:
      "insert_or_replace ?m (Some s) (Some f) (Some c) ''file'' (Some (''/uploads/'' @ n')) None now = Some st2"
    and run2: "upload_file ?m b (Some n') now False =
      (json True (Some ''File uploaded successfully'') (File_path (''/uploads/'' @ n')), st2)"
    using upload_file_ok[OF assms(1-3), of ?m n' now] by auto
  have u1: "uploads st1 = uploads st"
    using insert_or_replace_frame[OF ins1] by simp
  have u2: "uploads st2 = insert n' (uploads st)"
    using insert_or_replace_frame[OF ins2] up by simp
  have r1: "\<not> is_referenced st1 n"
    by (rule not_referenced_after_replace[OF ins1 assms(7)]) simp
  have r2: "\<not> is_referenced st2 n"
    by (rule not_referenced_after_replace[OF ins2 only']) (simp add: assms(8))
  show ?thesis
    unfolding handle.simps run1 run2 snd_conv fst_conv
    using u1 u2 r1 r2 assms(6) by (simp add: orphan_def json_def)
qed

theorem replace_keeps_old_blob_witness:
  "body_subject (text_body ''math'' ''notes'' 1 ''hello'') = Some ''math'' \<and>
   body_feature (text_body ''math'' ''notes'' 1 ''hello'') = Some ''notes'' \<and>
   body_chapter (text_body ''math'' ''notes'' 1 ''hello'') = Some 1 \<and>
   find (\<lambda>r. slot_key r = (''math'', ''notes'', 1))
     (content (serve started [Upload_file (key_body ''math'' ''notes'' 1) (Some ''17-33.pdf'') 10 False])) =
     Some \<lparr>row_id = 1, subject = ''math'', feature = ''notes'', chapter_no = 1,
            content_type = ''file'', file_path = Some ''/uploads/17-33.pdf'', text_content = None,
            created_at = 10, updated_at = 10\<rparr> \<and>
   ''17-33.pdf'' \<in> uploads (serve started [Upload_file (key_body ''math'' ''notes'' 1) (Some ''17-33.pdf'') 10 False]) \<and>
   ''18-44.pdf'' \<noteq> ''17-33.pdf'' \<and>
   orphan (snd (save_text
       (serve started [Upload_file (key_body ''math'' ''notes'' 1) (Some ''17-33.pdf'') 10 False])
       (text_body ''math'' ''notes'' 1 ''hello'') 20 False)) ''17-33.pdf'' \<and>
   orphan (snd (handle
       (serve started [Upload_file (key_body ''math'' ''notes'' 1) (Some ''17-33.pdf'') 10 False])
       (Upload_file (text_body ''math'' ''notes'' 1 ''hello'') (Some ''18-44.pdf'') 20 False))) ''17-33.pdf''"
proof -
  let ?b = "text_body ''math'' ''notes'' 1 ''hello''"
  let ?st = "serve started [Upload_file (key_body ''math'' ''notes'' 1) (Some ''17-33.pdf'') 10 False]"
  let ?old = "\<lparr>row_id = 1, subject = ''math'', feature = ''notes'', chapter_no = 1,
            content_type = ''file'', file_path = Some ''/uploads/17-33.pdf'', text_content = None,
            created_at = 10, updated_at = 10\<rparr>"
  have h1: "body_subject ?b = Some ''math''" by (simp add: request_defs)
  have h2: "body_feature ?b = Some ''notes''" by (simp add: request_defs)
  have h3: "body_chapter ?b = Some 1" by (simp add: request_defs)
  have h4: "find (\<lambda>r. slot_key r = (''math'', ''notes'', 1)) (content ?st) = Some ?old"
    by (simp add: request_defs)
  have h5: "file_path ?old = Some (''/uploads/'' @ ''17-33.pdf'')" by simp
  have h6: "''17-33.pdf'' \<in> uploads ?st" by (simp add: request_defs)
  have h7: "\<forall>r\<in>set (content ?st). file_path r = Some (''/uploads/'' @ ''17-33.pdf'') \<longrightarrow>
              slot_key r = (''math'', ''notes'', 1)"
    by (simp add: request_defs)
  have h8: "''18-44.pdf'' \<noteq> ''17-33.pdf''" by simp
  show ?thesis
    using replace_keeps_old_blob[OF h1 h2 h3 h4 h5 h6 h7 h8, of 20] h1 h2 h3 h4 h6 by simp
qed

text \<open>
  A file is uploaded for a key and a text is then saved on the same key.  The save
  succeeds, and the file, referenced before, is afterwards stored and referenced by no
  row.
\<close>

theorem save_text_over_file_leaves_orphan:
  "is_referenced
     (serve started [Upload_file (key_body ''math'' ''notes'' 1) (Some ''17-33.pdf'') 10 False])
     ''17-33.pdf'' \<and>
   success (fst (save_text
      (serve started [Upload_file (key_body ''math'' ''notes'' 1) (Some ''17-33.pdf'') 10 False])
      (text_body ''math'' ''notes'' 1 ''hello'') 20 False)) \<and>
   orphan (snd (save_text
      (serve started [Upload_file (key_body ''math'' ''notes'' 1) (Some ''17-33.pdf'') 10 False])
      (text_body ''math'' ''notes'' 1 ''hello'') 20 False)) ''17-33.pdf''"
  by (simp add: request_defs orphan_def is_referenced_def)

section \<open>The order of the two removals in delete\<close>

text \<open>
  C5, as the code has it: delete removes the referenced blob before it deletes the
  metadata row.  When the lookup of the row fails, the state is unchanged.  When the
  row names a file and the deletion of the row fails, the row is still there and its
  blob has already been removed.  When both calls succeed, blob and row are gone.
\<close>

theorem delete_content_unlinks_first:
  assumes "find (\<lambda>r. row_id r = i) (content st) = Some row"
    and "file_path row = Some p" and "p \<noteq> []"
  shows "delete_content st i True run_err = (status_json 500 ''Database error'', st) \<and>
         delete_content st i False True =
           (status_json 500 ''Failed to delete'', st\<lparr>uploads := uploads st - {basename p}\<rparr>) \<and>
         delete_content st i False False =
           (json True (Some ''Content deleted successfully'') No_payload,
            st\<lparr>uploads := uploads st - {basename p},
               content := filter (\<lambda>r. row_id r \<noteq> i) (content st)\<rparr>)"
  using assms by (simp add: delete_content_def unlink_if_exists_eq)

theorem delete_content_unlinks_first_witness:
  "find (\<lambda>r. row_id r = 1)
     (content (serve started [Upload_file (key_body ''math'' ''notes'' 1) (Some ''17-33.pdf'') 10 False])) =
     Some \<lparr>row_id = 1, subject = ''math'', feature = ''notes'', chapter_no = 1,
            content_type = ''file'', file_path = Some ''/uploads/17-33.pdf'', text_content = None,
            created_at = 10, updated_at = 10\<rparr> \<and>
   ''/uploads/17-33.pdf'' \<noteq> [] \<and>
   delete_content
     (serve started [Upload_file (key_body ''math'' ''notes'' 1) (Some ''17-33.pdf'') 10 False])
     1 False True =
     (status_json 500 ''Failed to delete'',
      (serve started [Upload_file (key_body ''math'' ''notes'' 1) (Some ''17-33.pdf'') 10 False])
        \<lparr>uploads := uploads (serve started [Upload_file (key_body ''math'' ''notes'' 1) (Some ''17-33.pdf'') 10 False])
                      - {basename ''/uploads/17-33.pdf''}\<rparr>)"
proof -
  let ?st = "serve started [Upload_file (key_body ''math'' ''notes'' 1) (Some ''17-33.pdf'') 10 False]"
  let ?row = "\<lparr>row_id = 1, subject = ''math'', feature = ''notes'', chapter_no = 1,
            content_type = ''file'', file_path = Some ''/uploads/17-33.pdf'', text_content = None,
            created_at = 10, updated_at = 10\<rparr>"
  have h1: "find (\<lambda>r. row_id r = 1) (content ?st) = Some ?row"
    by (simp add: request_defs)
  have h2: "file_path ?row = Some ''/uploads/17-33.pdf''" by simp
  have h3: "''/uploads/17-33.pdf'' \<noteq> []" by simp
  show ?thesis
    using delete_content_unlinks_first[OF h1 h2 h3] h1 h3 by blast
qed

text \<open>
  After an upload, a delete whose \<open>DELETE\<close> statement fails is answered with status 500;
  the blob, stored before, is gone, and the row that references it is still there.
\<close>

theorem failed_delete_has_removed_blob:
  "''17-33.pdf'' \<in> uploads
     (serve started [Upload_file (key_body ''math'' ''notes'' 1) (Some ''17-33.pdf'') 10 False]) \<and>
   status (fst (delete_content
     (serve started [Upload_file (key_body ''math'' ''notes'' 1) (Some ''17-33.pdf'') 10 False])
     1 False True)) = 500 \<and>
   ''17-33.pdf'' \<notin> uploads (snd (delete_content
     (serve started [Upload_file (key_body ''math'' ''notes'' 1) (Some ''17-33.pdf'') 10 False])
     1 False True)) \<and>
   map file_path (content (snd (delete_content
     (serve started [Upload_file (key_body ''math'' ''notes'' 1) (Some ''17-33.pdf'') 10 False])
     1 False True))) = [Some ''/uploads/17-33.pdf'']"
  by (simp add: request_defs basename_def)

section \<open>Deleting an id that no row has\<close>

text \<open>
  C6, as the code has it: for every id that identifies no existing Content Item, delete
  answers with success (status 200, \<open>success: true\<close>, "Content deleted successfully")
  and leaves the state as it is; the handler has no NotFound answer.
\<close>

theorem delete_content_absent_id:
  assumes "find (\<lambda>r. row_id r = i) (content st) = None"
  shows "delete_content st i False False =
           (json True (Some ''Content deleted successfully'') No_payload, st)"
  using assms by (rule delete_content_no_row)

theorem delete_content_absent_id_witness:
  "find (\<lambda>r. row_id r = 42) (content started) = None \<and>
   delete_content started 42 False False =
     (json True (Some ''Content deleted successfully'') No_payload, started)"
  using delete_content_absent_id[of 42 started]
  by (simp add: started_def initDatabase_def new_database_def)

text \<open>
  On the new database no row has the id 42, and the delete of 42 is answered with
  success, not with NotFound.
\<close>

theorem delete_absent_id_reports_success:
  "find (\<lambda>r. row_id r = 42) (content started) = None \<and>
   success (fst (delete_content started 42 False False)) \<and>
   status (fst (delete_content started 42 False False)) = 200 \<and>
   message (fst (delete_content started 42 False False)) = Some ''Content deleted successfully''"
  by (simp add: started_def initDatabase_def new_database_def delete_content_def json_def)

section \<open>Credentials and mutating requests\<close>

text \<open>
  C2, as the code has it: a mutation of the Credential Store by a request
  (\<open>change-password\<close>) succeeds only when the old password supplied with that request
  passes verification, and a request that does not succeed leaves the state as it is.
  The mutating operations of the Content Slot Store verify nothing: the outcome of
  \<open>upload-file\<close> and \<open>save-text\<close> does not depend on the credential fields of the
  request, and they succeed exactly when a file (for \<open>upload-file\<close>) and the three key
  fields are present and the database call does not fail; delete takes only the id and
  succeeds exactly when its database calls do not fail.
\<close>

theorem credentials_and_mutations:
  "(success (fst (change_password st b get_err run_err)) \<longrightarrow>
      success (verify_password st (b\<lparr>body_password := body_oldPassword b\<rparr>) False)) \<and>
   (\<not> success (fst (change_password st b get_err run_err)) \<longrightarrow>
      snd (change_password st b get_err run_err) = st) \<and>
   save_text st (b\<lparr>body_password := p, body_oldPassword := old, body_newPassword := new\<rparr>) now err =
     save_text st b now err \<and>
   upload_file st (b\<lparr>body_password := p, body_oldPassword := old, body_newPassword := new\<rparr>) fl now err =
     upload_file st b fl now err \<and>
   success (fst (save_text st b now err)) =
     (\<not> err \<and> body_subject b \<noteq> None \<and> body_feature b \<noteq> None \<and> body_chapter b \<noteq> None) \<and>
   success (fst (upload_file st b fl now err)) =
     (fl \<noteq> None \<and> \<not> err \<and> body_subject b \<noteq> None \<and> body_feature b \<noteq> None \<and>
      body_chapter b \<noteq> None) \<and>
   success (fst (delete_content st i get_err run_err)) = (\<not> get_err \<and> \<not> run_err)"
proof -
  have c1: "success (fst (change_password st b get_err run_err)) \<longrightarrow>
      success (verify_password st (b\<lparr>body_password := body_oldPassword b\<rparr>) False)"
    by (simp add: change_password_def verify_password_def json_def status_json_def
          split: option.splits)
  have c2: "\<not> success (fst (change_password st b get_err run_err)) \<longrightarrow>
      snd (change_password st b get_err run_err) = st"
    by (simp add: change_password_def json_def status_json_def split: option.splits)
  have c3: "save_text st (b\<lparr>body_password := p, body_oldPassword := old, body_newPassword := new\<rparr>) now err =
     save_text st b now err"
    by (simp add: save_text_def)
  have c4: "upload_file st (b\<lparr>body_password := p, body_oldPassword := old, body_newPassword := new\<rparr>) fl now err =
     upload_file st b fl now err"
    by (cases fl) (simp_all add: upload_file_def)
  have c5: "success (fst (save_text st b now err)) =
     (\<not> err \<and> body_subject b \<noteq> None \<and> body_feature b \<noteq> None \<and> body_chapter b \<noteq> None)"
    by (simp add: save_text_def insert_or_replace_def json_def status_json_def split: option.splits)
  have c6: "success (fst (upload_file st b fl now err)) =
     (fl \<noteq> None \<and> \<not> err \<and> body_subject b \<noteq> None \<and> body_feature b \<noteq> None \<and>
      body_chapter b \<noteq> None)"
    by (simp add: upload_file_def insert_or_replace_def json_def status_json_def split: option.splits)
  have c7: "success (fst (delete_content st i get_err run_err)) = (\<not> get_err \<and> \<not> run_err)"
    by (simp add: delete_content_def Let_def json_def status_json_def)
  from c1 c2 c3 c4 c5 c6 c7 show ?thesis by blast
qed

theorem credentials_and_mutations_witness:
  "success (fst (change_password started (change_body ''admin123'' ''s3cret'') False False)) \<and>
   success (verify_password started
      ((change_body ''admin123'' ''s3cret'')
         \<lparr>body_password := body_oldPassword (change_body ''admin123'' ''s3cret'')\<rparr>) False) \<and>
   \<not> success (fst (change_password started (change_body ''guess'' ''s3cret'') False False)) \<and>
   snd (change_password started (change_body ''guess'' ''s3cret'') False False) = started \<and>
   success (fst (save_text started (text_body ''math'' ''notes'' 1 ''hi'') 5 False)) \<and>
   success (fst (delete_content started 1 False False))"
  using credentials_and_mutations[of started "change_body ''admin123'' ''s3cret''" False False
      None None None 5 False "Some ''17-33.pdf''" 1]
    credentials_and_mutations[of started "change_body ''guess'' ''s3cret''" False False
      None None None 5 False "Some ''17-33.pdf''" 1]
    credentials_and_mutations[of started "text_body ''math'' ''notes'' 1 ''hi''" False False
      None None None 5 False "Some ''17-33.pdf''" 1]
  by (simp add: request_defs)

text \<open>
  A \<open>save-text\<close> request that carries a password which fails verification succeeds and
  creates a row; a delete request then removes it.
\<close>

theorem save_text_needs_no_credential:
  "\<not> success (verify_password started
        ((text_body ''math'' ''notes'' 1 ''hi'')\<lparr>body_password := Some ''wrong''\<rparr>) False) \<and>
   success (fst (save_text started
        ((text_body ''math'' ''notes'' 1 ''hi'')\<lparr>body_password := Some ''wrong''\<rparr>) 5 False)) \<and>
   content started = [] \<and>
   map text_content (content (snd (save_text started
        ((text_body ''math'' ''notes'' 1 ''hi'')\<lparr>body_password := Some ''wrong''\<rparr>) 5 False))) =
     [Some ''hi''] \<and>
   success (fst (delete_content
      (snd (save_text started
        ((text_body ''math'' ''notes'' 1 ''hi'')\<lparr>body_password := Some ''wrong''\<rparr>) 5 False))
      1 False False)) \<and>
   content (snd (delete_content
      (snd (save_text started
        ((text_body ''math'' ''notes'' 1 ''hi'')\<lparr>body_password := Some ''wrong''\<rparr>) 5 False))
      1 False False)) = []"
  by (simp add: request_defs)

section \<open>What the credential store of server.js holds\<close>

text \<open>
  C7 does not hold for \<open>server.js\<close>: on a new database the stored \<open>password_hash\<close> is the
  default password itself, verification of that password succeeds by equality of the
  two strings, and after a change the stored value is the new password itself.
\<close>

theorem password_stored_and_compared_in_plaintext:
  "admin_settings started = Some ''admin123'' \<and>
   verify_password started (password_body ''admin123'') False = json True None No_payload \<and>
   admin_settings (snd (change_password started (change_body ''admin123'' ''s3cret'') False False)) =
     Some ''s3cret'' \<and>
   verify_password (snd (change_password started (change_body ''admin123'' ''s3cret'') False False))
     (password_body ''s3cret'') False = json True None No_payload"
  by (simp add: request_defs)

text \<open>
  Verification in \<open>server.js\<close> is equality with the stored string.  The variant with
  bcrypt stores a hash and verifies with \<open>bcrypt.compare\<close>.
\<close>

lemma verify_password_iff:
  "success (verify_password st b False) = (body_password b \<noteq> None \<and> admin_settings st = body_password b)"
  by (cases "admin_settings st"; cases "body_password b")
    (auto simp: verify_password_def json_def)

lemma initDatabase_bcrypt_stores_hash:
  "admin_settings (initDatabase_bcrypt hash salt new_database) = Some (hash salt defaultPassword)"
  by (simp add: initDatabase_bcrypt_def new_database_def)

lemma verify_password_bcrypt_compare:
  "admin_settings st = Some h \<Longrightarrow>
   verify_password_bcrypt compare st (password_body p) False =
     Some (if compare p h then json True None No_payload
           else json False (Some ''Incorrect password'') No_payload)"
  by (simp add: verify_password_bcrypt_def password_body_def empty_body_def)

section \<open>Changing the password\<close>

text \<open>
  C8, as the code has it: for all strings old and new, and with no failing database
  call, rotate(old, new) succeeds if and only if verify(old) is true at the time of the
  call.  After a successful rotate(old, new), verify(new) is true, and verify(old) is
  true exactly when old and new are the same string.  In the variant with bcrypt,
  rotate(old, new) succeeds if and only if verify(old) is true, and afterwards verify(p)
  is \<open>bcrypt.compare\<close> of p with the fresh hash of new.
\<close>

theorem change_password_then_verify:
  "success (fst (change_password st (change_body old new) False False)) =
     success (verify_password st (password_body old) False) \<and>
   (success (fst (change_password st (change_body old new) False False)) \<longrightarrow>
      success (verify_password (snd (change_password st (change_body old new) False False))
                 (password_body new) False) \<and>
      success (verify_password (snd (change_password st (change_body old new) False False))
                 (password_body old) False) = (old = new)) \<and>
   (fst (change_password_bcrypt hash compare salt st (change_body old new) False False) =
      Some (json True (Some ''Password updated successfully!'') No_payload)) =
     (verify_password_bcrypt compare st (password_body old) False = Some (json True None No_payload)) \<and>
   (fst (change_password_bcrypt hash compare salt st (change_body old new) False False) =
      Some (json True (Some ''Password updated successfully!'') No_payload) \<longrightarrow>
      verify_password_bcrypt compare
          (snd (change_password_bcrypt hash compare salt st (change_body old new) False False))
          (password_body p) False =
        Some (if compare p (hash salt new) then json True None No_payload
              else json False (Some ''Incorrect password'') No_payload))"
proof -
  have a: "success (fst (change_password st (change_body old new) False False)) =
     success (verify_password st (password_body old) False)"
    by (simp add: change_password_def verify_password_def change_body_def password_body_def
          empty_body_def json_def split: option.splits)
  have b: "success (fst (change_password st (change_body old new) False False)) \<longrightarrow>
      success (verify_password (snd (change_password st (change_body old new) False False))
                 (password_body new) False) \<and>
      success (verify_password (snd (change_password st (change_body old new) False False))
                 (password_body old) False) = (old = new)"
    by (auto simp: change_password_def verify_password_def change_body_def password_body_def
          empty_body_def json_def split: option.splits)
  have c: "(fst (change_password_bcrypt hash compare salt st (change_body old new) False False) =
      Some (json True (Some ''Password updated successfully!'') No_payload)) =
     (verify_password_bcrypt compare st (password_body old) False = Some (json True None No_payload))"
    by (simp add: bcrypt_defs change_body_def password_body_def
          empty_body_def json_def split: option.splits)
  have d: "fst (change_password_bcrypt hash compare salt st (change_body old new) False False) =
      Some (json True (Some ''Password updated successfully!'') No_payload) \<longrightarrow>
      verify_password_bcrypt compare
          (snd (change_password_bcrypt hash compare salt st (change_body old new) False False))
          (password_body p) False =
        Some (if compare p (hash salt new) then json True None No_payload
              else json False (Some ''Incorrect password'') No_payload)"
    by (simp add: bcrypt_defs change_body_def password_body_def
          empty_body_def json_def split: option.splits)
  from a b c d show ?thesis by blast
qed

theorem change_password_then_verify_witness:
  "success (fst (change_password started (change_body ''admin123'' ''s3cret'') False False)) \<and>
   success (verify_password started (password_body ''admin123'') False) \<and>
   success (verify_password (snd (change_password started (change_body ''admin123'' ''s3cret'') False False))
              (password_body ''s3cret'') False) \<and>
   \<not> success (verify_password (snd (change_password started (change_body ''admin123'' ''s3cret'') False False))
              (password_body ''admin123'') False) \<and>
   fst (change_password_bcrypt (\<lambda>salt data. salt @ data) (\<lambda>data encrypted. encrypted = ''x'' @ data) ''x''
          (initDatabase_bcrypt (\<lambda>salt data. salt @ data) ''x'' new_database)
          (change_body ''admin123'' ''s3cret'') False False) =
     Some (json True (Some ''Password updated successfully!'') No_payload) \<and>
   verify_password_bcrypt (\<lambda>data encrypted. encrypted = ''x'' @ data)
       (snd (change_password_bcrypt (\<lambda>salt data. salt @ data) (\<lambda>data encrypted. encrypted = ''x'' @ data) ''x''
          (initDatabase_bcrypt (\<lambda>salt data. salt @ data) ''x'' new_database)
          (change_body ''admin123'' ''s3cret'') False False))
       (password_body ''s3cret'') False = Some (json True None No_payload)"
  using change_password_then_verify[of started "''admin123''" "''s3cret''"
      "\<lambda>salt data. salt @ data" "\<lambda>data encrypted. encrypted = ''x'' @ data" "''x''" "''s3cret''"]
  by (simp add: request_defs bcrypt_defs)

text \<open>
  \<open>change-password\<close> from the default password to the same password succeeds, and the old
  password still verifies afterwards.
\<close>

theorem change_to_same_password_keeps_old_valid:
  "success (fst (change_password started (change_body ''admin123'' ''admin123'') False False)) \<and>
   success (verify_password
      (snd (change_password started (change_body ''admin123'' ''admin123'') False False))
      (password_body ''admin123'') False)"
  by (simp add: request_defs)

end
